theory Spec2Isabelle
  imports Complex_Main
begin

section \<open>Data model\<close>

text \<open>
  The Go package \<open>rq\<close> is a fluent request builder over \<open>net/http\<close>. The embedding
  follows the source files \<open>rq.go\<close>, \<open>body.go\<close>, \<open>auth.go\<close>, \<open>client.go\<close>,
  \<open>interceptors.go\<close>, the retry engine (\<open>RetryConfig\<close>, \<open>DoWithRetry\<close>, the backoff
  functions) and the middleware file (\<open>Use\<close>, \<open>Chain\<close>).

  Conventions.
  \<^item> A Go \<open>error\<close> is a value of the datatype \<open>error\<close>; a nil error is \<open>None\<close>.
    \<open>fmt.Errorf(format, args..., err)\<close> with a trailing \<open>%w\<close> is the constructor
    \<open>Errorf format args err\<close>, so no formatting routine has to be modelled.
  \<^item> A nil pointer, nil slice, nil interface or nil function is \<open>None\<close>.
  \<^item> \<open>time.Duration\<close> is a number of nanoseconds (\<open>int\<close>).
  \<^item> An \<open>io.Reader\<close> is the bytes it yields and the error (if any) that ends it.
  \<^item> A run-time panic is a value \<open>Inl p\<close> of a sum type.
\<close>

datatype error = Error string | Errorf string "string list" error

datatype panic = NilPointerDereference | NilFunctionCall

type_synonym bytes = string

type_synonym duration = int

definition Millisecond :: duration where
  "Millisecond = 1000000"

definition Second :: duration where
  "Second = 1000000000"

datatype reader = Reader bytes "error option"

fun io_ReadAll :: "reader \<Rightarrow> bytes \<times> error option" where
  "io_ReadAll (Reader bs e) = (bs, e)"

definition bytes_NewReader :: "bytes \<Rightarrow> reader" where
  "bytes_NewReader bs = Reader bs None"

definition strings_NewReader :: "string \<Rightarrow> reader" where
  "strings_NewReader s = Reader s None"

text \<open>\<open>http.Header\<close> and \<open>url.Values\<close> are both \<open>map[string][]string\<close>: an association
  list with distinct keys.\<close>

type_synonym multimap = "(string \<times> string list) list"

definition multimap_Add :: "multimap \<Rightarrow> string \<Rightarrow> string \<Rightarrow> multimap" where
  "multimap_Add m k v =
     (case map_of m k of
        None \<Rightarrow> m @ [(k, [v])]
      | Some vs \<Rightarrow> map (\<lambda>(k', vs'). if k' = k then (k', vs' @ [v]) else (k', vs')) m)"

definition multimap_Set :: "multimap \<Rightarrow> string \<Rightarrow> string \<Rightarrow> multimap" where
  "multimap_Set m k v =
     (case map_of m k of
        None \<Rightarrow> m @ [(k, [v])]
      | Some vs \<Rightarrow> map (\<lambda>(k', vs'). if k' = k then (k', [v]) else (k', vs')) m)"

text \<open>Objects that are only passed along (a round tripper, a cookie jar, a redirect policy)
  are represented by their identity.\<close>

type_synonym ref = nat

datatype Context = Background | WithCancel ref

record http_Client =
  Transport :: "ref option"
  CheckRedirect :: "ref option"
  Jar :: "ref option"
  client_Timeout :: duration

record http_Request =
  req_ctx :: Context
  req_Method :: string
  req_URL :: string
  req_Body :: "reader option"
  req_Header :: multimap

record http_Response =
  StatusCode :: int
  resp_Header :: multimap
  resp_Body :: reader

text \<open>\<open>type Request struct\<close> of \<open>rq.go\<close>.\<close>

text \<open>The field \<open>method\<close> is named \<open>http_method\<close> here.\<close>

record Request =
  client :: "http_Client option"
  http_method :: string
  url :: string
  headers :: multimap
  queryParams :: multimap
  body :: "reader option"
  timeout :: duration
  err :: "error option"

text \<open>\<open>type Response struct\<close> of \<open>rq.go\<close>: the embedded \<open>*http.Response\<close>
  (\<open>resp_http\<close>), the buffered \<open>body\<close> and \<open>err\<close>.\<close>

record Response =
  resp_http :: "http_Response option"
  resp_body :: "bytes option"
  resp_err :: "error option"

section \<open>Response body accessors (\<open>body.go\<close>)\<close>

definition Bytes :: "Response \<Rightarrow> bytes option \<times> error option" where
  "Bytes r =
     (case resp_err r of
        Some e \<Rightarrow> (None, Some e)
      | None \<Rightarrow> (resp_body r, None))"

definition to_string :: "bytes option \<Rightarrow> string" where
  "to_string b = (case b of None \<Rightarrow> [] | Some bs \<Rightarrow> bs)"

definition String :: "Response \<Rightarrow> string \<times> error option" where
  "String r =
     (case resp_err r of
        Some e \<Rightarrow> ([], Some e)
      | None \<Rightarrow> (to_string (resp_body r), None))"

text \<open>\<open>JSON(v)\<close> decodes into the target \<open>v\<close> with \<open>json.Unmarshal\<close>, a function of the
  standard library that is taken as the parameter \<open>unmarshal\<close>: it returns the error, if
  any, and the target as it has left it.\<close>

definition JSON ::
  "(bytes option \<Rightarrow> 'v \<Rightarrow> error option \<times> 'v) \<Rightarrow> Response \<Rightarrow> 'v \<Rightarrow> error option \<times> 'v" where
  "JSON unmarshal r v =
     (case resp_err r of
        Some e \<Rightarrow> (Some e, v)
      | None \<Rightarrow>
          (case unmarshal (resp_body r) v of
             (Some e, v') \<Rightarrow> (Some (Errorf ''decode JSON: %w'' [] e), v')
           | (None, v') \<Rightarrow> (None, v')))"

definition BodyReader :: "Response \<Rightarrow> reader option \<times> error option" where
  "BodyReader r =
     (case resp_err r of
        Some e \<Rightarrow> (None, Some e)
      | None \<Rightarrow> (Some (bytes_NewReader (to_string (resp_body r))), None))"

text \<open>\<open>SaveToFile\<close> calls \<open>os.WriteFile(filename, r.body, 0o600)\<close>; the file system is a
  state \<open>'fs\<close> and \<open>os.WriteFile\<close> the parameter \<open>writeFile\<close>.\<close>

definition SaveToFile ::
  "('fs \<Rightarrow> string \<Rightarrow> bytes option \<Rightarrow> nat \<Rightarrow> error option \<times> 'fs) \<Rightarrow>
     Response \<Rightarrow> string \<Rightarrow> 'fs \<Rightarrow> error option \<times> 'fs" where
  "SaveToFile writeFile r filename fs =
     (case resp_err r of
        Some e \<Rightarrow> (Some e, fs)
      | None \<Rightarrow> writeFile fs filename (resp_body r) 384)"

section \<open>The world outside the package\<close>

text \<open>
  Everything the package calls but does not define is a field of the environment \<open>env\<close>:
  the URL and request constructors of the standard library, the client behind
  \<open>client.Do\<close> (connection, redirects, server), the cancellation of a context and the
  random source. What has happened so far is the \<open>world\<close>, a chronological list of
  events; the client, the context and the random source may answer depending on it.
\<close>

datatype event =
    ClientDo http_Client http_Request
  | Select duration bool
  | RandFloat64 rat

type_synonym world = "event list"

record url_URL =
  Scheme :: string
  Host :: string
  Path :: string
  RawQuery :: string
  Fragment :: string

record env =
  url_Parse :: "string \<Rightarrow> error + url_URL"
  URL_String :: "url_URL \<Rightarrow> string"
  Values_Encode :: "multimap \<Rightarrow> string"
  CanonicalHeaderKey :: "string \<Rightarrow> string"
  base64_EncodeToString :: "string \<Rightarrow> string"
  http_NewRequestWithContext ::
    "Context \<Rightarrow> string \<Rightarrow> string \<Rightarrow> reader option \<Rightarrow> error + http_Request"
  Client_Do :: "world \<Rightarrow> http_Client \<Rightarrow> http_Request \<Rightarrow> error + http_Response"
  ctx_Done :: "world \<Rightarrow> Context \<Rightarrow> duration \<Rightarrow> bool"
  ctx_Err :: "world \<Rightarrow> Context \<Rightarrow> error option"
  rand_Float64 :: "world \<Rightarrow> rat"

text \<open>The number of times \<open>client.Do\<close> has been invoked: the attempts that reached the
  transport.\<close>

fun is_ClientDo :: "event \<Rightarrow> bool" where
  "is_ClientDo (ClientDo c q) = True"
| "is_ClientDo (Select d b) = False"
| "is_ClientDo (RandFloat64 x) = False"

definition transport_calls :: "world \<Rightarrow> nat" where
  "transport_calls w = length (filter is_ClientDo w)"

text \<open>The durations handed to \<open>time.After\<close> in the \<open>select\<close> between two attempts.\<close>

fun waited :: "world \<Rightarrow> duration list" where
  "waited [] = []"
| "waited (Select d b # w) = d # waited w"
| "waited (ClientDo c q # w) = waited w"
| "waited (RandFloat64 x # w) = waited w"

section \<open>Executing a request (\<open>rq.go\<close>)\<close>

definition error_response :: "error \<Rightarrow> Response" where
  "error_response e = \<lparr>resp_http = None, resp_body = None, resp_err = Some e\<rparr>"

text \<open>Lines 209 to 216 of \<open>DoContext\<close>: the client that executes the request. Reading
  \<open>r.client.Transport\<close>, or calling \<open>Do\<close>, on a nil client panics.\<close>

definition select_client :: "Request \<Rightarrow> panic + http_Client" where
  "select_client r =
     (if timeout r > 0 then
        (case client r of
           None \<Rightarrow> Inl NilPointerDereference
         | Some c \<Rightarrow>
             Inr \<lparr>Transport = Transport c, CheckRedirect = None, Jar = None,
                  client_Timeout = timeout r\<rparr>)
      else
        (case client r of
           None \<Rightarrow> Inl NilPointerDereference
         | Some c \<Rightarrow> Inr c))"

definition DoContext :: "env \<Rightarrow> Context \<Rightarrow> Request \<Rightarrow> world \<Rightarrow> (panic + Response) \<times> world" where
  "DoContext E ctx r w =
     (case err r of
        Some e \<Rightarrow> (Inr (error_response e), w)
      | None \<Rightarrow>
          (case url_Parse E (url r) of
             Inl e \<Rightarrow> (Inr (error_response (Errorf ''invalid URL: %q: %w'' [url r] e)), w)
           | Inr u0 \<Rightarrow>
               (let u = (if length (queryParams r) > 0
                         then u0\<lparr>RawQuery := Values_Encode E (queryParams r)\<rparr> else u0)
                in case http_NewRequestWithContext E ctx (http_method r) (URL_String E u) (body r) of
                     Inl e \<Rightarrow>
                       (Inr (error_response (Errorf ''failed to create request: %w'' [] e)), w)
                   | Inr req0 \<Rightarrow>
                       (let req = req0\<lparr>req_Header := headers r\<rparr>
                        in case select_client r of
                             Inl p \<Rightarrow> (Inl p, w)
                           | Inr c \<Rightarrow>
                               (case Client_Do E w c req of
                                  Inl e \<Rightarrow>
                                    (Inr (error_response (Errorf ''request failed: %w'' [] e)),
                                     w @ [ClientDo c req])
                                | Inr resp \<Rightarrow>
                                    (case io_ReadAll (resp_Body resp) of
                                       (bs, Some e) \<Rightarrow>
                                         (Inr \<lparr>resp_http = Some resp, resp_body = None,
                                               resp_err =
                                                 Some (Errorf ''failed to read body: %w'' [] e)\<rparr>,
                                          w @ [ClientDo c req])
                                     | (bs, None) \<Rightarrow>
                                         (Inr \<lparr>resp_http = Some resp, resp_body = Some bs,
                                               resp_err = None\<rparr>,
                                          w @ [ClientDo c req])))))))"

definition Do :: "env \<Rightarrow> Request \<Rightarrow> world \<Rightarrow> (panic + Response) \<times> world" where
  "Do E r w = DoContext E Background r w"

section \<open>The retry engine\<close>

text \<open>
  \<open>float64\<close> values are modelled by the rational they denote and float arithmetic by exact
  arithmetic; this agrees with IEEE arithmetic wherever operands and results are
  representable, which is the case at every input evaluated below except for the literal
  \<open>0.3\<close>, taken as \<open>3/10\<close>. The conversion \<open>time.Duration(x)\<close> of a float truncates
  towards zero; outside the range of \<open>int64\<close> the language leaves the result to the
  implementation, and the model returns what amd64 does, the least \<open>int64\<close>.
  \<open>wrap64\<close> is the wrap-around of \<open>int64\<close> arithmetic.
\<close>

definition wrap64 :: "int \<Rightarrow> int" where
  "wrap64 x = (x + 2 ^ 63) mod 2 ^ 64 - 2 ^ 63"

definition float64_to_int64 :: "rat \<Rightarrow> int" where
  "float64_to_int64 x =
     (let t = (if x \<ge> 0 then \<lfloor>x\<rfloor> else \<lceil>x\<rceil>)
      in if - (2 ^ 63) \<le> t \<and> t < 2 ^ 63 then t else - (2 ^ 63))"

record RetryConfig =
  MaxAttempts :: int
  Delay :: duration
  MaxDelay :: duration
  Multiplier :: rat
  Jitter :: bool
  RetryIf :: "(Response \<Rightarrow> panic + bool) option"

definition defaultRetryIf :: "Response \<Rightarrow> panic + bool" where
  "defaultRetryIf resp =
     (if resp_err resp \<noteq> None then Inr True
      else case resp_http resp of
             None \<Rightarrow> Inl NilPointerDereference
           | Some h \<Rightarrow> Inr (StatusCode h \<ge> 500 \<or> StatusCode h = 429))"

definition DefaultRetryConfig :: RetryConfig where
  "DefaultRetryConfig =
     \<lparr>MaxAttempts = 3, Delay = 100 * Millisecond, MaxDelay = 10 * Second,
      Multiplier = 2, Jitter = True, RetryIf = Some defaultRetryIf\<rparr>"

definition addJitter :: "env \<Rightarrow> duration \<Rightarrow> world \<Rightarrow> duration \<times> world" where
  "addJitter E delay w =
     (let x = rand_Float64 E w;
          jitter = float64_to_int64 (x * of_int delay * (3 / 10))
      in (wrap64 (delay + jitter), w @ [RandFloat64 x]))"

text \<open>The \<open>for\<close> loop of \<open>DoWithRetry\<close>, with its variables \<open>attempt\<close>, \<open>delay\<close> and
  \<open>resp\<close>; \<open>bodyBytes\<close> is the buffered request body.\<close>

function retry_loop ::
  "env \<Rightarrow> Context \<Rightarrow> RetryConfig \<Rightarrow> bytes option \<Rightarrow> Request \<Rightarrow> int \<Rightarrow> duration \<Rightarrow>
     Response option \<Rightarrow> world \<Rightarrow> (panic + Response option) \<times> world" where
  "retry_loop E ctx config bodyBytes r attempt delay resp w =
     (if attempt < MaxAttempts config then
        (let r1 = (case bodyBytes of
                     None \<Rightarrow> r
                   | Some bs \<Rightarrow> r\<lparr>body := Some (bytes_NewReader bs)\<rparr>)
         in case DoContext E ctx r1 w of
              (Inl p, w1) \<Rightarrow> (Inl p, w1)
            | (Inr resp1, w1) \<Rightarrow>
                (case RetryIf config of
                   None \<Rightarrow> (Inl NilFunctionCall, w1)
                 | Some retryIf \<Rightarrow>
                     (case retryIf resp1 of
                        Inl p \<Rightarrow> (Inl p, w1)
                      | Inr False \<Rightarrow> (Inr (Some resp1), w1)
                      | Inr True \<Rightarrow>
                          if attempt = MaxAttempts config - 1 then (Inr (Some resp1), w1)
                          else
                            (let (delay1, w2) =
                                   (if Jitter config then addJitter E delay w1 else (delay, w1))
                             in if ctx_Done E w2 ctx delay1 then
                                  (Inr (Some (resp1\<lparr>resp_err := ctx_Err E w2 ctx\<rparr>)),
                                   w2 @ [Select delay1 True])
                                else
                                  (let delay2 = float64_to_int64 (of_int delay1 * Multiplier config);
                                       delay3 = (if delay2 > MaxDelay config
                                                 then MaxDelay config else delay2)
                                   in retry_loop E ctx config bodyBytes r1 (attempt + 1) delay3
                                        (Some resp1) (w2 @ [Select delay1 False]))))))
      else (Inr resp, w))"
  by pat_completeness auto
termination
  by (relation "measure (\<lambda>(E, ctx, config, bodyBytes, r, attempt, delay, resp, w).
                  nat (MaxAttempts config - attempt))") auto

definition DoWithRetry ::
  "env \<Rightarrow> Context \<Rightarrow> RetryConfig option \<Rightarrow> Request \<Rightarrow> world \<Rightarrow>
     (panic + Response option) \<times> world" where
  "DoWithRetry E ctx config0 r w =
     (let config = (case config0 of None \<Rightarrow> DefaultRetryConfig | Some c \<Rightarrow> c)
      in case err r of
           Some e \<Rightarrow> (Inr (Some (error_response e)), w)
         | None \<Rightarrow>
             (case body r of
                None \<Rightarrow> retry_loop E ctx config None r 0 (Delay config) None w
              | Some rd \<Rightarrow>
                  (case io_ReadAll rd of
                     (bs, Some e) \<Rightarrow> (Inr (Some (error_response e)), w)
                   | (bs, None) \<Rightarrow>
                       retry_loop E ctx config (Some bs) r 0 (Delay config) None w)))"

section \<open>Backoff functions\<close>

text \<open>\<open>math.Pow\<close> at an integral exponent; \<open>None\<close> is a result that is not finite.\<close>

definition math_Pow :: "rat \<Rightarrow> int \<Rightarrow> rat option" where
  "math_Pow x y =
     (if y \<ge> 0 then Some (x ^ nat y)
      else if x = 0 then None
      else Some (1 / x ^ nat (- y)))"

definition Duration_of_float64 :: "rat option \<Rightarrow> duration" where
  "Duration_of_float64 x = (case x of None \<Rightarrow> - (2 ^ 63) | Some q \<Rightarrow> float64_to_int64 q)"

definition ExponentialBackoff :: "duration \<Rightarrow> rat \<Rightarrow> duration \<Rightarrow> int \<Rightarrow> duration" where
  "ExponentialBackoff base multiplier maxDelay attempt =
     (let delay = wrap64 (base * Duration_of_float64 (math_Pow multiplier attempt))
      in if delay > maxDelay then maxDelay else delay)"

definition LinearBackoff :: "duration \<Rightarrow> duration \<Rightarrow> duration \<Rightarrow> int \<Rightarrow> duration" where
  "LinearBackoff base increment maxDelay attempt =
     (let delay = wrap64 (base + wrap64 (increment * attempt))
      in if delay > maxDelay then maxDelay else delay)"

definition ConstantBackoff :: "duration \<Rightarrow> int \<Rightarrow> duration" where
  "ConstantBackoff delay attempt = delay"

section \<open>Builder operations (\<open>rq.go\<close>, \<open>body.go\<close>, \<open>auth.go\<close>, \<open>proxy.go\<close>)\<close>

text \<open>Every method mutates the request it is called on and returns it; the model returns
  the updated record. A Go \<open>map[string]string\<close> argument is the list of its entries in
  the order the \<open>range\<close> loop visits them.\<close>

definition defaultClient :: http_Client where
  "defaultClient =
     \<lparr>Transport = None, CheckRedirect = None, Jar = None, client_Timeout = 30 * Second\<rparr>"

definition New :: Request where
  "New = \<lparr>client = Some defaultClient, http_method = ''GET'', url = [], headers = [],
          queryParams = [], body = None, timeout = 0, err = None\<rparr>"

definition Method :: "string \<Rightarrow> Request \<Rightarrow> Request" where
  "Method m r = (if err r \<noteq> None then r else r\<lparr>http_method := m\<rparr>)"

definition URL :: "string \<Rightarrow> Request \<Rightarrow> Request" where
  "URL urlStr r = (if err r \<noteq> None then r else r\<lparr>url := urlStr\<rparr>)"

definition Client :: "http_Client option \<Rightarrow> Request \<Rightarrow> Request" where
  "Client c r = (if err r \<noteq> None then r else r\<lparr>client := c\<rparr>)"

definition Timeout :: "duration \<Rightarrow> Request \<Rightarrow> Request" where
  "Timeout d r = (if err r \<noteq> None then r else r\<lparr>timeout := d\<rparr>)"

definition Header_Add :: "env \<Rightarrow> multimap \<Rightarrow> string \<Rightarrow> string \<Rightarrow> multimap" where
  "Header_Add E h key v = multimap_Add h (CanonicalHeaderKey E key) v"

definition Header_Set :: "env \<Rightarrow> multimap \<Rightarrow> string \<Rightarrow> string \<Rightarrow> multimap" where
  "Header_Set E h key v = multimap_Set h (CanonicalHeaderKey E key) v"

definition Header :: "env \<Rightarrow> string \<Rightarrow> string \<Rightarrow> Request \<Rightarrow> Request" where
  "Header E key v r =
     (if err r \<noteq> None then r else r\<lparr>headers := Header_Add E (headers r) key v\<rparr>)"

definition Headers :: "env \<Rightarrow> (string \<times> string) list \<Rightarrow> Request \<Rightarrow> Request" where
  "Headers E hs r =
     (if err r \<noteq> None then r
      else r\<lparr>headers := fold (\<lambda>(k, v) h. Header_Set E h k v) hs (headers r)\<rparr>)"

definition QueryParam :: "string \<Rightarrow> string \<Rightarrow> Request \<Rightarrow> Request" where
  "QueryParam key v r =
     (if err r \<noteq> None then r else r\<lparr>queryParams := multimap_Add (queryParams r) key v\<rparr>)"

definition QueryParams :: "(string \<times> string) list \<Rightarrow> Request \<Rightarrow> Request" where
  "QueryParams params r =
     (if err r \<noteq> None then r
      else r\<lparr>queryParams := fold (\<lambda>(k, v) q. multimap_Set q k v) params (queryParams r)\<rparr>)"

definition Body :: "reader option \<Rightarrow> Request \<Rightarrow> Request" where
  "Body b r = (if err r \<noteq> None then r else r\<lparr>body := b\<rparr>)"

definition BodyString :: "string \<Rightarrow> Request \<Rightarrow> Request" where
  "BodyString s r = (if err r \<noteq> None then r else r\<lparr>body := Some (strings_NewReader s)\<rparr>)"

definition BodyBytes :: "bytes \<Rightarrow> Request \<Rightarrow> Request" where
  "BodyBytes b r = (if err r \<noteq> None then r else r\<lparr>body := Some (bytes_NewReader b)\<rparr>)"

text \<open>\<open>json.Marshal\<close> is the parameter \<open>marshal\<close>.\<close>

definition BodyJSON :: "env \<Rightarrow> ('v \<Rightarrow> error + bytes) \<Rightarrow> 'v \<Rightarrow> Request \<Rightarrow> Request" where
  "BodyJSON E marshal v r =
     (if err r \<noteq> None then r
      else case marshal v of
             Inl e \<Rightarrow> r\<lparr>err := Some (Errorf ''failed to marshal JSON: %w'' [] e)\<rparr>
           | Inr data \<Rightarrow>
               r\<lparr>body := Some (bytes_NewReader data),
                 headers := Header_Set E (headers r) ''Content-Type'' ''application/json''\<rparr>)"

definition BodyForm :: "env \<Rightarrow> multimap \<Rightarrow> Request \<Rightarrow> Request" where
  "BodyForm E data r =
     (if err r \<noteq> None then r
      else r\<lparr>body := Some (strings_NewReader (Values_Encode E data)),
             headers := Header_Set E (headers r) ''Content-Type''
                          ''application/x-www-form-urlencoded''\<rparr>)"

definition Auth :: "env \<Rightarrow> string \<Rightarrow> string \<Rightarrow> Request \<Rightarrow> Request" where
  "Auth E authType credentials r =
     (if err r \<noteq> None then r
      else r\<lparr>headers := Header_Set E (headers r) ''Authorization''
                          (authType @ '' '' @ credentials)\<rparr>)"

text \<open>An \<open>AuthProvider\<close> is its method \<open>Apply\<close>.\<close>

definition WithAuth :: "(Request \<Rightarrow> Request) \<Rightarrow> Request \<Rightarrow> Request" where
  "WithAuth provider r = (if err r \<noteq> None then r else provider r)"

definition basicAuth :: "env \<Rightarrow> string \<Rightarrow> string \<Rightarrow> string" where
  "basicAuth E username password = base64_EncodeToString E (username @ '':'' @ password)"

definition BasicAuth :: "env \<Rightarrow> string \<Rightarrow> string \<Rightarrow> Request \<Rightarrow> Request" where
  "BasicAuth E username password r =
     (if err r \<noteq> None then r
      else r\<lparr>headers := Header_Set E (headers r) ''Authorization''
                          (''Basic '' @ basicAuth E username password)\<rparr>)"

definition BearerToken :: "env \<Rightarrow> string \<Rightarrow> Request \<Rightarrow> Request" where
  "BearerToken E token r =
     (if err r \<noteq> None then r
      else r\<lparr>headers := Header_Set E (headers r) ''Authorization'' (''Bearer '' @ token)\<rparr>)"

text \<open>\<open>Proxy\<close> builds a client around the transport made by \<open>config.CreateTransport\<close>,
  and \<open>ProxyURL\<close> obtains the configuration from \<open>ProxyFromURL\<close>. Both helpers are the
  parameters \<open>createTransport\<close> and \<open>proxyFromURL\<close>: they run on an unpoisoned request
  only. The fresh client has no transport yet when \<open>getTransport\<close> reads it.\<close>

definition getTransport :: "http_Client \<Rightarrow> ref option" where
  "getTransport c = (case Transport c of None \<Rightarrow> None | Some t \<Rightarrow> Some t)"

definition Proxy ::
  "('cfg \<Rightarrow> ref option \<Rightarrow> error + ref) \<Rightarrow> 'cfg \<Rightarrow> Request \<Rightarrow> Request" where
  "Proxy createTransport config r =
     (if err r \<noteq> None then r
      else
        (let c = (case client r of
                    None \<Rightarrow> \<lparr>Transport = None, CheckRedirect = None, Jar = None,
                              client_Timeout = 0\<rparr>
                  | Some c0 \<Rightarrow> \<lparr>Transport = None, CheckRedirect = CheckRedirect c0,
                                Jar = Jar c0, client_Timeout = client_Timeout c0\<rparr>)
         in case createTransport config (getTransport c) of
              Inl e \<Rightarrow> r\<lparr>err := Some (Errorf ''configure proxy: %w'' [] e)\<rparr>
            | Inr t \<Rightarrow> r\<lparr>client := Some (c\<lparr>Transport := Some t\<rparr>)\<rparr>))"

definition ProxyURL ::
  "(string \<Rightarrow> error + 'cfg) \<Rightarrow> ('cfg \<Rightarrow> ref option \<Rightarrow> error + ref) \<Rightarrow> string \<Rightarrow>
     Request \<Rightarrow> Request" where
  "ProxyURL proxyFromURL createTransport proxyURL r =
     (if err r \<noteq> None then r
      else case proxyFromURL proxyURL of
             Inl e \<Rightarrow> r\<lparr>err := Some e\<rparr>
           | Inr config \<Rightarrow> Proxy createTransport config r)"

section \<open>Middleware\<close>

text \<open>A \<open>Middleware\<close> is a Go function \<open>func(*Request) *Request\<close>. It may act on the
  world besides the request (\<open>LoggingMiddleware\<close> prints), so the model threads a state
  \<open>'s\<close> through it. \<open>Use\<close> and \<open>Chain\<close> are the same \<open>range\<close> loop.\<close>

type_synonym 's Middleware = "Request \<Rightarrow> 's \<Rightarrow> Request \<times> 's"

fun Use :: "'s Middleware list \<Rightarrow> Request \<Rightarrow> 's \<Rightarrow> Request \<times> 's" where
  "Use [] r s = (r, s)"
| "Use (m # middleware) r s = (case m r s of (r', s') \<Rightarrow> Use middleware r' s')"

fun Chain :: "'s Middleware list \<Rightarrow> 's Middleware" where
  "Chain [] r s = (r, s)"
| "Chain (m # middleware) r s = (case m r s of (r', s') \<Rightarrow> Chain middleware r' s')"

text \<open>\<open>logger.Printf\<close> is the function \<open>printf\<close>; a nil logger is \<open>None\<close>.\<close>

definition LoggingMiddleware ::
  "(string \<Rightarrow> string list \<Rightarrow> 's \<Rightarrow> 's) option \<Rightarrow> 's Middleware" where
  "LoggingMiddleware logger r s =
     (case logger of
        None \<Rightarrow> (r, s)
      | Some printf \<Rightarrow> (r, printf ''%s %s'' [http_method r, url r] s))"

definition UserAgentMiddleware :: "env \<Rightarrow> string \<Rightarrow> 's Middleware" where
  "UserAgentMiddleware E userAgent r s = (Header E ''User-Agent'' userAgent r, s)"

definition TimeoutMiddleware :: "duration \<Rightarrow> 's Middleware" where
  "TimeoutMiddleware d r s = (Timeout d r, s)"

definition HeadersMiddleware :: "env \<Rightarrow> (string \<times> string) list \<Rightarrow> 's Middleware" where
  "HeadersMiddleware E hs r s = (Headers E hs r, s)"

section \<open>Interceptors (\<open>interceptors.go\<close>)\<close>

text \<open>What a round trip does to the outside: it invokes the underlying transport and it
  closes response bodies. An interceptor may change the message it is given in place, so
  it returns the message along with its error. A round tripper returns either an error or
  a response, as the contract of \<open>http.RoundTripper\<close> demands.\<close>

datatype rt_event = BaseRoundTrip http_Request | BodyClose http_Response

type_synonym RoundTripper = "rt_event list \<Rightarrow> http_Request \<Rightarrow> error + http_Response"

type_synonym RequestInterceptor = "Context \<Rightarrow> http_Request \<Rightarrow> error option \<times> http_Request"

type_synonym ResponseInterceptor = "Context \<Rightarrow> http_Response \<Rightarrow> error option \<times> http_Response"

record InterceptorTransport =
  Base :: "RoundTripper option"
  RequestInterceptor :: "RequestInterceptor option"
  ResponseInterceptor :: "ResponseInterceptor option"

text \<open>\<open>http.DefaultTransport\<close> is the parameter \<open>DefaultTransport\<close>.\<close>

definition RoundTrip ::
  "RoundTripper \<Rightarrow> InterceptorTransport \<Rightarrow> http_Request \<Rightarrow> rt_event list \<Rightarrow>
     (error + http_Response) \<times> rt_event list" where
  "RoundTrip DefaultTransport t req0 tr =
     (case (case RequestInterceptor t of
              None \<Rightarrow> (None, req0)
            | Some f \<Rightarrow> f (req_ctx req0) req0) of
        (Some e, req) \<Rightarrow> (Inl e, tr)
      | (None, req) \<Rightarrow>
          (let base = (case Base t of None \<Rightarrow> DefaultTransport | Some b \<Rightarrow> b)
           in case base tr req of
                Inl e \<Rightarrow> (Inl e, tr @ [BaseRoundTrip req])
              | Inr resp0 \<Rightarrow>
                  (case ResponseInterceptor t of
                     None \<Rightarrow> (Inr resp0, tr @ [BaseRoundTrip req])
                   | Some g \<Rightarrow>
                       (case g (req_ctx req) resp0 of
                          (Some e, resp) \<Rightarrow> (Inl e, tr @ [BaseRoundTrip req, BodyClose resp])
                        | (None, resp) \<Rightarrow> (Inr resp, tr @ [BaseRoundTrip req])))))"

definition base_invocations :: "rt_event list \<Rightarrow> nat" where
  "base_invocations tr = length (filter (\<lambda>e. case e of BaseRoundTrip q \<Rightarrow> True | BodyClose p \<Rightarrow> False) tr)"

section \<open>Theorems\<close>

text \<open>
  Claim C10. A response that carries an error \<open>e\<close> answers every body accessor with exactly
  \<open>e\<close> and no data: \<open>Bytes\<close> returns a nil slice, \<open>String\<close> the empty string,
  \<open>BodyReader\<close> a nil reader; \<open>JSON\<close> leaves the target untouched whatever the decoder
  would have done, and \<open>SaveToFile\<close> leaves the file system untouched whatever the write
  would have done.
\<close>

theorem response_error_blocks_body_accessors:
  assumes "resp_err r = Some e"
  shows "Bytes r = (None, Some e)
       \<and> String r = ([], Some e)
       \<and> JSON unmarshal r v = (Some e, v)
       \<and> BodyReader r = (None, Some e)
       \<and> SaveToFile writeFile r filename fs = (Some e, fs)"
  using assms
  by (simp add: Bytes_def String_def JSON_def BodyReader_def SaveToFile_def)

theorem response_error_blocks_body_accessors_witness:
  "(let r = \<lparr>resp_http = None, resp_body = Some ''payload'',
             resp_err = Some (Error ''request failed'')\<rparr>;
        unmarshal = (\<lambda>b v. (None, to_string b));
        writeFile = (\<lambda>fs name b perm. (None, (name, to_string b) # fs))
    in resp_err r = Some (Error ''request failed'')
     \<and> Bytes r = (None, Some (Error ''request failed''))
     \<and> String r = ([], Some (Error ''request failed''))
     \<and> JSON unmarshal r ''old'' = (Some (Error ''request failed''), ''old'')
     \<and> BodyReader r = (None, Some (Error ''request failed''))
     \<and> SaveToFile writeFile r ''out.bin'' [] = (Some (Error ''request failed''), []))"
  using response_error_blocks_body_accessors
    [of "\<lparr>resp_http = None, resp_body = Some ''payload'',
          resp_err = Some (Error ''request failed'')\<rparr>"
        "Error ''request failed''"
        "\<lambda>b v. (None, to_string b)" "''old''"
        "\<lambda>fs name b perm. (None, (name, to_string b) # fs)" "''out.bin''" "[]"]
  by simp

end
